theory Spec2Isabelle
  imports Main "HOL-Library.Sublist" "HOL-Library.AList"
begin

section \<open>JavaScript values\<close>

text \<open>
  The proxy handles configuration files, request bodies and provider responses as
  untyped JSON. A value is what \<^verbatim>\<open>JSON.parse\<close> can produce, plus \<^verbatim>\<open>undefined\<close>.
  Objects are association lists in insertion order; a lookup takes the first binding
  of a key. Numbers are integers (status codes, ports, token counts); fractional
  numbers and \<^verbatim>\<open>NaN\<close> are not represented. Only own properties are modelled: names
  inherited from \<^verbatim>\<open>Object.prototype\<close> (such as \<^verbatim>\<open>constructor\<close>) read as
  \<^verbatim>\<open>undefined\<close>. The code compares values with string and number constants only,
  where \<^verbatim>\<open>===\<close> is equality of values.
\<close>

datatype jsval =
    JUndefined
  | JNull
  | JBool bool
  | JNum int
  | JStr string
  | JArr "jsval list"
  | JObj "(string \<times> jsval) list"

text \<open>An \<^verbatim>\<open>Error\<close> object built by this code: its message and the properties the
  code attaches to it.\<close>

record error =
  message :: string
  recommendations :: "string list option"
  supportedTypes :: "string list option"

definition Error :: "string \<Rightarrow> error" where
  "Error m = \<lparr>message = m, recommendations = None, supportedTypes = None\<rparr>"

text \<open>Truthiness, as \<^verbatim>\<open>!x\<close>, \<^verbatim>\<open>x || y\<close> and \<^verbatim>\<open>if (x)\<close> see it.\<close>

fun truthy :: "jsval \<Rightarrow> bool" where
  "truthy JUndefined = False"
| "truthy JNull = False"
| "truthy (JBool b) = b"
| "truthy (JNum n) = (n \<noteq> 0)"
| "truthy (JStr s) = (s \<noteq> [])"
| "truthy (JArr xs) = True"
| "truthy (JObj kvs) = True"

definition js_or :: "jsval \<Rightarrow> jsval \<Rightarrow> jsval" where
  "js_or a b = (if truthy a then a else b)"

text \<open>\<^verbatim>\<open>typeof x === 'object'\<close>: objects, arrays and \<^verbatim>\<open>null\<close>.\<close>

fun typeof_object :: "jsval \<Rightarrow> bool" where
  "typeof_object (JObj kvs) = True"
| "typeof_object (JArr xs) = True"
| "typeof_object JNull = True"
| "typeof_object v = False"

subsection \<open>Conversion to string\<close>

definition digit_char :: "nat \<Rightarrow> char" where
  "digit_char d = ''0123456789'' ! d"

fun string_of_nat :: "nat \<Rightarrow> string" where
  "string_of_nat n =
     (if n < 10 then [digit_char n]
      else string_of_nat (n div 10) @ [digit_char (n mod 10)])"

declare string_of_nat.simps [simp del]

definition string_of_int :: "int \<Rightarrow> string" where
  "string_of_int i = (if i < 0 then CHR ''-'' # string_of_nat (nat (- i)) else string_of_nat (nat i))"

fun join_comma :: "string list \<Rightarrow> string" where
  "join_comma [] = []"
| "join_comma [s] = s"
| "join_comma (s # t # ss) = s @ '','' @ join_comma (t # ss)"

text \<open>\<^verbatim>\<open>String(x)\<close>, which template literals and computed property keys apply.\<close>

fun to_string :: "jsval \<Rightarrow> string" where
  "to_string JUndefined = ''undefined''"
| "to_string JNull = ''null''"
| "to_string (JBool b) = (if b then ''true'' else ''false'')"
| "to_string (JNum n) = string_of_int n"
| "to_string (JStr s) = s"
| "to_string (JArr xs) =
     join_comma (map (\<lambda>x. if x = JUndefined \<or> x = JNull then [] else to_string x) xs)"
| "to_string (JObj kvs) = ''[object Object]''"

subsection \<open>Properties\<close>

text \<open>The own enumerable properties of a value, in order: what \<^verbatim>\<open>Object.keys\<close>,
  \<^verbatim>\<open>Object.values\<close> and object spread enumerate.\<close>

fun indexed :: "nat \<Rightarrow> 'a list \<Rightarrow> (string \<times> 'a) list" where
  "indexed i [] = []"
| "indexed i (x # xs) = (string_of_nat i, x) # indexed (Suc i) xs"

fun own_props :: "jsval \<Rightarrow> (string \<times> jsval) list" where
  "own_props (JObj kvs) = kvs"
| "own_props (JArr xs) = indexed 0 xs"
| "own_props (JStr s) = indexed 0 (map (\<lambda>c. JStr [c]) s)"
| "own_props v = []"

definition lookup :: "(string \<times> jsval) list \<Rightarrow> string \<Rightarrow> jsval" where
  "lookup kvs k = (case map_of kvs k of Some v \<Rightarrow> v | None \<Rightarrow> JUndefined)"

text \<open>A property read \<^verbatim>\<open>x.k\<close> or \<^verbatim>\<open>x[k]\<close>. Reading from \<^verbatim>\<open>undefined\<close> or
  \<^verbatim>\<open>null\<close> throws a \<^verbatim>\<open>TypeError\<close>; arrays and strings have their indices and
  \<^verbatim>\<open>length\<close>.\<close>

fun get :: "jsval \<Rightarrow> string \<Rightarrow> error + jsval" where
  "get JUndefined k =
     Inl (Error (''Cannot read properties of undefined (reading '' @ [CHR 0x27] @ k @ [CHR 0x27] @ '')''))"
| "get JNull k =
     Inl (Error (''Cannot read properties of null (reading '' @ [CHR 0x27] @ k @ [CHR 0x27] @ '')''))"
| "get (JObj kvs) k = Inr (lookup kvs k)"
| "get (JArr xs) k =
     Inr (if k = ''length'' then JNum (int (length xs)) else lookup (own_props (JArr xs)) k)"
| "get (JStr s) k =
     Inr (if k = ''length'' then JNum (int (length s)) else lookup (own_props (JStr s)) k)"
| "get v k = Inr JUndefined"

text \<open>Optional chaining \<^verbatim>\<open>x?.k\<close>.\<close>

definition get_opt :: "jsval \<Rightarrow> string \<Rightarrow> jsval" where
  "get_opt v k = (case get v k of Inl e \<Rightarrow> JUndefined | Inr r \<Rightarrow> r)"

text \<open>Object spread \<^verbatim>\<open>{ ...a, ...b }\<close>: the properties of \<open>a\<close>, then for each key of
  \<open>b\<close> in order the value \<open>b\<close> has under it, written over them.\<close>

definition assign :: "(string \<times> jsval) list \<Rightarrow> (string \<times> jsval) list \<Rightarrow> (string \<times> jsval) list" where
  "assign kvs upd = foldl (\<lambda>acc k. AList.update k (lookup upd k) acc) kvs (map fst upd)"

definition spread2 :: "jsval \<Rightarrow> jsval \<Rightarrow> jsval" where
  "spread2 a b = JObj (assign (own_props a) (own_props b))"

text \<open>\<^verbatim>\<open>Object.keys(x)\<close> throws on \<^verbatim>\<open>undefined\<close> and \<^verbatim>\<open>null\<close>.\<close>

definition object_keys :: "jsval \<Rightarrow> error + string list" where
  "object_keys v =
     (if v = JUndefined \<or> v = JNull then Inl (Error ''Cannot convert undefined or null to object'')
      else Inr (map fst (own_props v)))"

text \<open>Sequencing of computations that may throw.\<close>

definition and_then :: "error + 'a \<Rightarrow> ('a \<Rightarrow> error + 'b) \<Rightarrow> error + 'b" where
  "and_then r f = (case r of Inl e \<Rightarrow> Inl e | Inr v \<Rightarrow> f v)"

section \<open>Configuration loader (config-loader.js)\<close>

definition getDefaultConfig :: jsval where
  "getDefaultConfig = JObj
     [(''backend'', JStr ''self-hosted''),
      (''port'', JStr ''auto''),
      (''backends'', JObj
        [(''cerebras'', JObj
           [(''type'', JStr ''cerebras''),
            (''apiKey'', JStr ''YOUR_CEREBRAS_API_KEY''),
            (''apiUrl'', JStr ''https://api.cerebras.ai/v1'')]),
         (''self-hosted'', JObj
           [(''type'', JStr ''self-hosted''),
            (''url'', JStr ''http://localhost:8000''),
            (''description'', JStr ''Local Python proxy (simple_api_proxy.py)'')]),
         (''vast-ai'', JObj
           [(''type'', JStr ''self-hosted''),
            (''url'', JStr ''http://vast-instance:8000''),
            (''description'', JStr ''Vast.ai instance with Redis caching'')]),
         (''runpod'', JObj
           [(''type'', JStr ''self-hosted''),
            (''url'', JStr ''http://runpod-instance:8000''),
            (''description'', JStr ''RunPod instance with persistent storage'')])])]"

text \<open>\<^verbatim>\<open>mergeConfigs(base, override)\<close>: a copy of \<open>base\<close>; every key of \<open>override\<close>
  replaces the copy's, except \<^verbatim>\<open>backends\<close>, whose entries are spread over the copy's
  entries name by name.\<close>

definition merge_key :: "jsval \<Rightarrow> (string \<times> jsval) list \<Rightarrow> string \<Rightarrow> (string \<times> jsval) list" where
  "merge_key override merged key =
     (if key = ''backends''
      then AList.update ''backends''
             (spread2 (lookup merged ''backends'') (lookup (own_props override) ''backends'')) merged
      else AList.update key (lookup (own_props override) key) merged)"

definition mergeConfigs :: "jsval \<Rightarrow> jsval \<Rightarrow> error + jsval" where
  "mergeConfigs base override =
     and_then (object_keys override)
       (\<lambda>keys. Inr (JObj (foldl (merge_key override) (own_props base) keys)))"

text \<open>\<^verbatim>\<open>validateBackend(name, backend)\<close>.\<close>

definition validateBackend :: "jsval \<Rightarrow> jsval \<Rightarrow> error + unit" where
  "validateBackend name backend =
     and_then (get backend ''type'') (\<lambda>ty.
       if \<not> truthy ty
       then Inl (Error (''Backend \"'' @ to_string name @ ''\" missing required field: type''))
       else if ty = JStr ''cerebras''
       then and_then (get backend ''apiKey'') (\<lambda>k.
              if \<not> truthy k
              then Inl (Error (''Backend \"'' @ to_string name @ ''\" missing required field: apiKey''))
              else Inr ())
       else if ty = JStr ''self-hosted''
       then and_then (get backend ''url'') (\<lambda>u.
              if \<not> truthy u
              then Inl (Error (''Backend \"'' @ to_string name @ ''\" missing required field: url''))
              else Inr ())
       else Inl (Error (''Backend \"'' @ to_string name @ ''\" has invalid type: '' @ to_string ty)))"

text \<open>\<^verbatim>\<open>validateConfig(config)\<close>.\<close>

definition validateConfig :: "jsval \<Rightarrow> error + unit" where
  "validateConfig config =
     and_then (get config ''backend'') (\<lambda>b.
       if \<not> truthy b then Inl (Error ''Missing required field: backend'')
       else and_then (get config ''backends'') (\<lambda>bs.
         if \<not> truthy bs \<or> \<not> typeof_object bs then Inl (Error ''Missing required field: backends'')
         else and_then (get bs (to_string b)) (\<lambda>entry.
           if \<not> truthy entry
           then Inl (Error (''Backend \"'' @ to_string b @ ''\" not found in backends configuration''))
           else validateBackend b entry)))"

text \<open>A configuration source as \<^verbatim>\<open>load\<close> finds it: the file does not exist (or the
  environment variable is unset or empty), reading or parsing it fails, or it parses
  to a value.\<close>

datatype source = Missing | Unreadable | Parsed jsval

text \<open>One of the steps 2 to 4 of \<^verbatim>\<open>load\<close>. The state is the configuration so far and
  \<^verbatim>\<open>hasExplicitConfig\<close>. A failure, also one thrown by \<^verbatim>\<open>mergeConfigs\<close>, is caught
  and only logged (the console is not modelled), and leaves both unchanged.\<close>

definition load_source :: "jsval \<times> bool \<Rightarrow> source \<Rightarrow> jsval \<times> bool" where
  "load_source st src =
     (case src of
        Missing \<Rightarrow> st
      | Unreadable \<Rightarrow> st
      | Parsed v \<Rightarrow> (case mergeConfigs (fst st) v of Inl e \<Rightarrow> st | Inr merged \<Rightarrow> (merged, True)))"

text \<open>Step 5 with explicit configuration: default backends are added under the names
  the configuration leaves without a truthy entry, and the default port when the
  configuration has none. At this point \<^verbatim>\<open>config.backends\<close> is absent or an object
  built by the spread in \<^verbatim>\<open>mergeConfigs\<close>.\<close>

definition add_default_backend :: "(string \<times> jsval) list \<Rightarrow> string \<times> jsval \<Rightarrow> (string \<times> jsval) list" where
  "add_default_backend bs d = (if \<not> truthy (lookup bs (fst d)) then AList.update (fst d) (snd d) bs else bs)"

definition fill_defaults :: "jsval \<Rightarrow> jsval" where
  "fill_defaults config =
     (let c0 = own_props config;
          c1 = (if \<not> truthy (lookup c0 ''backends'') then AList.update ''backends'' (JObj []) c0 else c0);
          bs = foldl add_default_backend (own_props (lookup c1 ''backends''))
                 (own_props (lookup (own_props getDefaultConfig) ''backends''));
          c2 = AList.update ''backends'' (JObj bs) c1
      in JObj (if \<not> truthy (lookup c2 ''port'')
               then AList.update ''port'' (lookup (own_props getDefaultConfig) ''port'') c2 else c2))"

text \<open>The entry a configuration names as active, \<^verbatim>\<open>config.backends[config.backend]\<close>,
  read without throwing.\<close>

definition activeBackend :: "jsval \<Rightarrow> jsval" where
  "activeBackend cfg = get_opt (get_opt cfg ''backends'') (to_string (get_opt cfg ''backend''))"

definition load_merged :: "source \<Rightarrow> source \<Rightarrow> source \<Rightarrow> jsval" where
  "load_merged globalSrc projectSrc envSrc =
     (let st = load_source (load_source (load_source (JObj [], False) globalSrc) projectSrc) envSrc
      in if \<not> snd st then getDefaultConfig else fill_defaults (fst st))"

definition load :: "source \<Rightarrow> source \<Rightarrow> source \<Rightarrow> error + jsval" where
  "load globalSrc projectSrc envSrc =
     (let config = load_merged globalSrc projectSrc envSrc
      in and_then (validateConfig config) (\<lambda>u. Inr config))"

subsection \<open>Saving\<close>

text \<open>The part of the file system \<^verbatim>\<open>save\<close> touches: regular files with their content
  and permission bits. \<^verbatim>\<open>writeJson\<close> creates a missing file with the process's
  creation mode (0666 masked by the umask) and keeps the mode of an existing one;
  \<^verbatim>\<open>ensureDir\<close> only creates directories. File operations are taken to succeed.\<close>

record stored_file =
  content :: jsval
  mode :: nat

type_synonym filesystem = "string \<rightharpoonup> stored_file"

definition mode_0o600 :: nat where
  "mode_0o600 = 6 * 8 * 8 + 0 * 8 + 0"

definition mode_0o644 :: nat where
  "mode_0o644 = 6 * 8 * 8 + 4 * 8 + 4"

definition writeJson :: "nat \<Rightarrow> filesystem \<Rightarrow> string \<Rightarrow> jsval \<Rightarrow> filesystem" where
  "writeJson creation_mode fs path v =
     fs(path \<mapsto> \<lparr>content = v, mode = (case fs path of None \<Rightarrow> creation_mode | Some f \<Rightarrow> mode f)\<rparr>)"

definition chmod :: "filesystem \<Rightarrow> string \<Rightarrow> nat \<Rightarrow> filesystem" where
  "chmod fs path m = (case fs path of None \<Rightarrow> fs | Some f \<Rightarrow> fs(path \<mapsto> f\<lparr>mode := m\<rparr>))"

text \<open>The callback of \<^verbatim>\<open>some\<close> in \<^verbatim>\<open>configContainsSecrets\<close>:
  \<^verbatim>\<open>backend.apiKey || backend.password || backend.token\<close>.\<close>

definition has_secret :: "jsval \<Rightarrow> error + bool" where
  "has_secret backend =
     and_then (get backend ''apiKey'') (\<lambda>k.
       if truthy k then Inr True
       else and_then (get backend ''password'') (\<lambda>p.
         if truthy p then Inr True
         else and_then (get backend ''token'') (\<lambda>t. Inr (truthy t))))"

text \<open>\<^verbatim>\<open>Array.prototype.some\<close>: stops at the first element the callback accepts, and
  at the first one it throws on.\<close>

fun some_has_secret :: "jsval list \<Rightarrow> error + bool" where
  "some_has_secret [] = Inr False"
| "some_has_secret (b # bs) =
     and_then (has_secret b) (\<lambda>found. if found then Inr True else some_has_secret bs)"

definition configContainsSecrets :: "jsval \<Rightarrow> error + bool" where
  "configContainsSecrets config =
     and_then (get config ''backends'') (\<lambda>bs.
       if \<not> truthy bs then Inr False else some_has_secret (map snd (own_props bs)))"

text \<open>\<^verbatim>\<open>save(config, configPath)\<close>: the file system afterwards, and whether the call
  returned or threw.\<close>

definition save :: "nat \<Rightarrow> filesystem \<Rightarrow> jsval \<Rightarrow> string \<Rightarrow> filesystem \<times> (error + unit)" where
  "save creation_mode fs config configPath =
     (let fs1 = writeJson creation_mode fs configPath config
      in case configContainsSecrets config of
           Inl e \<Rightarrow> (fs1, Inl e)
         | Inr secrets \<Rightarrow>
             if secrets then (chmod fs1 configPath mode_0o600, Inr ()) else (fs1, Inr ()))"

section \<open>Outbound HTTP\<close>

text \<open>A call of \<^verbatim>\<open>axios.post\<close> or \<^verbatim>\<open>axios.get\<close> resolves with a response object or
  rejects with a thrown value. The network is a function from the request to that
  outcome.\<close>

record http_request =
  req_method :: string
  req_url :: string
  req_data :: jsval
  req_headers :: "(string \<times> string) list"
  req_timeout :: "nat option"

datatype axios_result = Resolved jsval | Rejected jsval

type_synonym axios = "http_request \<Rightarrow> axios_result"

text \<open>An \<^verbatim>\<open>Error\<close> of this code as a caught value whose properties are read.\<close>

definition error_value :: "error \<Rightarrow> jsval" where
  "error_value e =
     JObj ((''message'', JStr (message e)) #
           (case recommendations e of None \<Rightarrow> [] | Some rs \<Rightarrow> [(''recommendations'', JArr (map JStr rs))]) @
           (case supportedTypes e of None \<Rightarrow> [] | Some ts \<Rightarrow> [(''supportedTypes'', JArr (map JStr ts))]))"

text \<open>The loop that deletes the keys of \<^verbatim>\<open>requestData\<close> whose value is
  \<^verbatim>\<open>undefined\<close>.\<close>

definition remove_undefined :: "(string \<times> jsval) list \<Rightarrow> (string \<times> jsval) list" where
  "remove_undefined kvs = filter (\<lambda>kv. snd kv \<noteq> JUndefined) kvs"

text \<open>\<^verbatim>\<open>String.prototype.trim\<close> on ASCII white space; a value that is not a string has
  no such method.\<close>

definition is_space :: "char \<Rightarrow> bool" where
  "is_space c = (c \<in> set [CHR '' '', CHR 0x09, CHR 0x0A, CHR 0x0B, CHR 0x0C, CHR 0x0D])"

definition trim :: "string \<Rightarrow> string" where
  "trim s = rev (dropWhile is_space (rev (dropWhile is_space s)))"

fun call_trim :: "string \<Rightarrow> jsval \<Rightarrow> error + string" where
  "call_trim expr (JStr s) = Inr (trim s)"
| "call_trim expr v = Inl (Error (expr @ ''.trim is not a function''))"

text \<open>\<^verbatim>\<open>x.includes(needle)\<close> on a truthy value: strings search a substring, arrays
  an element, anything else has no such method.\<close>

fun call_includes :: "string \<Rightarrow> jsval \<Rightarrow> string \<Rightarrow> error + bool" where
  "call_includes expr (JStr s) needle = Inr (sublist needle s)"
| "call_includes expr (JArr xs) needle = Inr (JStr needle \<in> set xs)"
| "call_includes expr v needle = Inl (Error (expr @ ''.includes is not a function''))"

section \<open>Managed-cloud strategy (strategies/cerebras-strategy.js)\<close>

record CerebrasStrategy =
  apiKey :: jsval
  apiUrl :: jsval

definition cerebras_validateConfig :: "jsval \<Rightarrow> error + unit" where
  "cerebras_validateConfig config =
     and_then (get config ''apiKey'') (\<lambda>k.
       if \<not> truthy k then Inl (Error ''Cerebras strategy requires apiKey'')
       else and_then (call_trim ''config.apiKey'' k) (\<lambda>t.
         if t = [] then Inl (Error ''Cerebras strategy requires apiKey'') else Inr ()))"

definition new_CerebrasStrategy :: "jsval \<Rightarrow> error + CerebrasStrategy" where
  "new_CerebrasStrategy config =
     and_then (cerebras_validateConfig config) (\<lambda>u.
     and_then (get config ''apiKey'') (\<lambda>k.
     and_then (get config ''apiUrl'') (\<lambda>url.
       Inr \<lparr>apiKey = k, apiUrl = js_or url (JStr ''https://api.cerebras.ai/v1'')\<rparr>)))"

definition cerebras_request :: "CerebrasStrategy \<Rightarrow> jsval \<Rightarrow> jsval \<Rightarrow> error + http_request" where
  "cerebras_request s messages options =
     and_then (get options ''model'') (\<lambda>m.
     and_then (get options ''max_tokens'') (\<lambda>mt.
     and_then (get options ''temperature'') (\<lambda>t.
       Inr \<lparr>req_method = ''POST'',
            req_url = to_string (apiUrl s) @ ''/chat/completions'',
            req_data = JObj (remove_undefined
              [(''model'', js_or m (JStr ''qwen-3-coder-480b'')),
               (''messages'', messages),
               (''max_tokens'', mt),
               (''temperature'', t)]),
            req_headers =
              [(''Authorization'', ''Bearer '' @ to_string (apiKey s)),
               (''Content-Type'', ''application/json'')],
            req_timeout = None\<rparr>)))"

definition transformResponse :: "jsval \<Rightarrow> error + jsval" where
  "transformResponse cerebrasResponse =
     and_then (get cerebrasResponse ''choices'') (\<lambda>choices.
     and_then (get choices ''0'') (\<lambda>choice.
     and_then (get cerebrasResponse ''id'') (\<lambda>rid.
     and_then (get choice ''message'') (\<lambda>msg.
     and_then (get msg ''content'') (\<lambda>text.
     and_then (get cerebrasResponse ''model'') (\<lambda>model.
     and_then (get choice ''finish_reason'') (\<lambda>finish.
     and_then (get cerebrasResponse ''usage'') (\<lambda>usage.
       Inr (JObj
         [(''id'', rid),
          (''type'', JStr ''message''),
          (''role'', JStr ''assistant''),
          (''content'', JArr [JObj [(''type'', JStr ''text''), (''text'', text)]]),
          (''model'', model),
          (''stop_reason'', if finish = JStr ''stop'' then JStr ''end_turn'' else finish),
          (''stop_sequence'', JNull),
          (''usage'', JObj
            [(''input_tokens'', js_or (get_opt usage ''prompt_tokens'') (JNum 0)),
             (''output_tokens'', js_or (get_opt usage ''completion_tokens'') (JNum 0))])])))))))))"

definition cerebras_handleError :: "CerebrasStrategy \<Rightarrow> jsval \<Rightarrow> error + error" where
  "cerebras_handleError s err =
     and_then (get err ''response'') (\<lambda>response.
       if truthy response then
         and_then (get response ''status'') (\<lambda>status.
         and_then (get response ''data'') (\<lambda>errorData.
           if status = JNum 401 then
             and_then (get errorData ''error'') (\<lambda>detail.
               Inr (Error (''Cerebras API authentication failed: ''
                      @ to_string (js_or detail (JStr ''Invalid credentials''))
                      @ ''. Please check your API key configuration.'')))
           else if status = JNum 429 then
             Inr ((Error ''Cerebras API rate limit exceeded. Please try again later or consider using a self-hosted backend.'')
                   \<lparr>recommendations := Some
                     [''Wait before retrying the request'',
                      ''Switch to self-hosted backend: llm-proxy switch self-hosted'',
                      ''Consider upgrading your Cerebras plan'']\<rparr>)
           else if status = JNum 503 then
             Inr ((Error ''Cerebras API service unavailable. The service may be experiencing issues.'')
                   \<lparr>recommendations := Some
                     [''Try switching to self-hosted backend: llm-proxy switch self-hosted'',
                      ''Check Cerebras status page for service issues'',
                      ''Consider using vast-ai or runpod backends for reliability'']\<rparr>)
           else
             and_then (get errorData ''error'') (\<lambda>detail.
               Inr ((Error (''Cerebras API error ('' @ to_string status @ ''): ''
                       @ to_string (js_or detail (JStr ''Unknown error''))))
                     \<lparr>recommendations := Some
                       [''Check Cerebras API documentation'',
                        ''Try switching to self-hosted backend: llm-proxy switch self-hosted'']\<rparr>))))
       else
         and_then (get err ''code'') (\<lambda>code.
           if code = JStr ''ECONNREFUSED'' \<or> code = JStr ''ENOTFOUND'' then
             Inr ((Error ''Cannot connect to Cerebras API. Please check your internet connection.'')
                   \<lparr>recommendations := Some
                     [''Check your internet connection'',
                      ''Verify DNS resolution'',
                      ''Try switching to self-hosted backend: llm-proxy switch self-hosted'']\<rparr>)
           else
             and_then (get err ''message'') (\<lambda>m.
               Inr ((Error (''Cerebras API request failed: '' @ to_string m))
                     \<lparr>recommendations := Some
                       [''Try switching to self-hosted backend: llm-proxy switch self-hosted'']\<rparr>))))"

text \<open>The body of the \<^verbatim>\<open>try\<close> block of \<^verbatim>\<open>executeRequest\<close>: the value returned, or
  the value thrown, which is the rejection of the call or a \<^verbatim>\<open>TypeError\<close> of a
  property read.\<close>

definition cerebras_try :: "axios \<Rightarrow> CerebrasStrategy \<Rightarrow> jsval \<Rightarrow> jsval \<Rightarrow> jsval + jsval" where
  "cerebras_try post s messages options =
     (case cerebras_request s messages options of
        Inl e \<Rightarrow> Inl (error_value e)
      | Inr req \<Rightarrow>
          (case post req of
             Rejected thrown \<Rightarrow> Inl thrown
           | Resolved response \<Rightarrow>
               (case and_then (get response ''data'') transformResponse of
                  Inl e \<Rightarrow> Inl (error_value e)
                | Inr v \<Rightarrow> Inr v)))"

definition cerebras_executeRequest :: "axios \<Rightarrow> CerebrasStrategy \<Rightarrow> jsval \<Rightarrow> jsval \<Rightarrow> error + jsval" where
  "cerebras_executeRequest post s messages options =
     (case cerebras_try post s messages (if options = JUndefined then JObj [] else options) of
        Inr v \<Rightarrow> Inr v
      | Inl thrown \<Rightarrow>
          (case cerebras_handleError s thrown of Inl e \<Rightarrow> Inl e | Inr safeError \<Rightarrow> Inl safeError))"

section \<open>Self-hosted strategy (strategies/self-hosted-strategy.js)\<close>

record SelfHostedStrategy =
  url :: jsval
  description :: jsval

text \<open>\<^verbatim>\<open>new URL(s)\<close> is the platform's parser; which strings it accepts is a
  parameter.\<close>

definition selfhosted_validateConfig :: "(string \<Rightarrow> bool) \<Rightarrow> jsval \<Rightarrow> error + unit" where
  "selfhosted_validateConfig url_parses config =
     and_then (get config ''url'') (\<lambda>u.
       if \<not> truthy u then Inl (Error ''Self-hosted strategy requires url'')
       else and_then (call_trim ''config.url'' u) (\<lambda>t.
         if t = [] then Inl (Error ''Self-hosted strategy requires url'')
         else if \<not> url_parses (to_string u) then Inl (Error ''Invalid URL format'')
         else Inr ()))"

definition new_SelfHostedStrategy :: "(string \<Rightarrow> bool) \<Rightarrow> jsval \<Rightarrow> error + SelfHostedStrategy" where
  "new_SelfHostedStrategy url_parses config =
     and_then (selfhosted_validateConfig url_parses config) (\<lambda>u.
     and_then (get config ''url'') (\<lambda>url.
     and_then (get config ''description'') (\<lambda>d.
       Inr \<lparr>url = url, description = js_or d (JStr ''Self-hosted proxy'')\<rparr>)))"

definition selfhosted_request :: "SelfHostedStrategy \<Rightarrow> jsval \<Rightarrow> jsval \<Rightarrow> error + http_request" where
  "selfhosted_request s messages options =
     and_then (get options ''max_tokens'') (\<lambda>mt.
     and_then (get options ''temperature'') (\<lambda>t.
     and_then (get options ''model'') (\<lambda>m.
       Inr \<lparr>req_method = ''POST'',
            req_url = to_string (url s) @ ''/v1/messages'',
            req_data = JObj (remove_undefined
              [(''messages'', messages),
               (''max_tokens'', mt),
               (''temperature'', t),
               (''model'', m)]),
            req_headers = [(''Content-Type'', ''application/json'')],
            req_timeout = Some 30000\<rparr>)))"

definition selfhosted_handleError :: "SelfHostedStrategy \<Rightarrow> jsval \<Rightarrow> error + error" where
  "selfhosted_handleError s err =
     and_then (get err ''code'') (\<lambda>code.
       if code = JStr ''ECONNREFUSED'' \<or> code = JStr ''ENOTFOUND'' then
         Inr ((Error (''Cannot connect to self-hosted proxy at '' @ to_string (url s)
                 @ ''. Please ensure the proxy is running.''))
               \<lparr>recommendations := Some
                 [''Check if the Python proxy is running: python3 simple_api_proxy.py'',
                  ''Verify the proxy URL in your configuration'',
                  ''Try switching to Cerebras backend: llm-proxy switch cerebras'',
                  ''Check proxy logs for error details'']\<rparr>)
       else
         and_then (get err ''message'') (\<lambda>m.
         and_then (if code = JStr ''ECONNABORTED'' then Inr True
                   else if \<not> truthy m then Inr False
                   else call_includes ''error.message'' m ''timeout'') (\<lambda>timed_out.
           if timed_out then
             Inr ((Error ''Self-hosted proxy request timed out. The model may be loading or overloaded.'')
                   \<lparr>recommendations := Some
                     [''Wait for the model to finish loading'',
                      ''Check if the GPU has sufficient memory'',
                      ''Try switching to Cerebras backend: llm-proxy switch cerebras'',
                      ''Restart the Python proxy if it appears stuck'']\<rparr>)
           else
             and_then (get err ''response'') (\<lambda>response.
               if truthy response then
                 and_then (get response ''status'') (\<lambda>status.
                 and_then (get response ''data'') (\<lambda>errorData.
                 and_then (get errorData ''error'') (\<lambda>e1.
                 and_then (if truthy e1 then Inr e1
                           else and_then (get errorData ''detail'') (\<lambda>e2.
                                  Inr (js_or e2 (JStr ''Unknown error'')))) (\<lambda>errorMessage.
                 and_then (and_then (call_includes ''errorMessage'' errorMessage ''not found'') (\<lambda>nf.
                             if nf then Inr True
                             else and_then (call_includes ''errorMessage'' errorMessage ''model'') (\<lambda>md.
                                    if \<not> md then Inr False
                                    else call_includes ''errorMessage'' errorMessage ''not''))) (\<lambda>not_loaded.
                   if not_loaded then
                     Inr ((Error (''Model not loaded on self-hosted proxy: '' @ to_string errorMessage))
                           \<lparr>recommendations := Some
                             [''Run: ollama pull qwen3-coder'',
                              ''Check available models: ollama list'',
                              ''Verify model name in configuration'',
                              ''Try switching to Cerebras backend: llm-proxy switch cerebras'']\<rparr>)
                   else
                     Inr ((Error (''Self-hosted proxy error ('' @ to_string status @ ''): ''
                             @ to_string errorMessage))
                           \<lparr>recommendations := Some
                             [''Check proxy logs for detailed error information'',
                              ''Verify the proxy is running correctly'',
                              ''Try switching to Cerebras backend: llm-proxy switch cerebras'']\<rparr>))))))
               else
                 Inr ((Error (''Self-hosted proxy request failed: ''
                         @ to_string (js_or m (JStr ''Unknown error''))))
                       \<lparr>recommendations := Some
                         [''Check your network connection'',
                          ''Verify the proxy URL is correct'',
                          ''Try switching to Cerebras backend: llm-proxy switch cerebras'']\<rparr>)))))"

definition selfhosted_try :: "axios \<Rightarrow> SelfHostedStrategy \<Rightarrow> jsval \<Rightarrow> jsval \<Rightarrow> jsval + jsval" where
  "selfhosted_try post s messages options =
     (case selfhosted_request s messages options of
        Inl e \<Rightarrow> Inl (error_value e)
      | Inr req \<Rightarrow>
          (case post req of
             Rejected thrown \<Rightarrow> Inl thrown
           | Resolved response \<Rightarrow>
               (case get response ''data'' of
                  Inl e \<Rightarrow> Inl (error_value e)
                | Inr v \<Rightarrow> Inr v)))"

definition selfhosted_executeRequest :: "axios \<Rightarrow> SelfHostedStrategy \<Rightarrow> jsval \<Rightarrow> jsval \<Rightarrow> error + jsval" where
  "selfhosted_executeRequest post s messages options =
     (case selfhosted_try post s messages (if options = JUndefined then JObj [] else options) of
        Inr v \<Rightarrow> Inr v
      | Inl thrown \<Rightarrow>
          (case selfhosted_handleError s thrown of Inl e \<Rightarrow> Inl e | Inr safeError \<Rightarrow> Inl safeError))"

text \<open>\<^verbatim>\<open>checkHealth()\<close>: every failure inside the \<^verbatim>\<open>try\<close> block becomes the
  unhealthy result.\<close>

definition selfhosted_checkHealth :: "axios \<Rightarrow> SelfHostedStrategy \<Rightarrow> jsval" where
  "selfhosted_checkHealth http_get s =
     (let unhealthy = JObj [(''status'', JStr ''unhealthy''),
                            (''error'', JStr ''Cannot connect to proxy''),
                            (''endpoint'', url s)]
      in case http_get \<lparr>req_method = ''GET'', req_url = to_string (url s) @ ''/health'',
                        req_data = JUndefined, req_headers = [], req_timeout = Some 5000\<rparr> of
           Rejected thrown \<Rightarrow> unhealthy
         | Resolved response \<Rightarrow>
             (case get response ''data'' of
                Inl e \<Rightarrow> unhealthy
              | Inr d \<Rightarrow> spread2 d (JObj [(''endpoint'', url s)])))"

section \<open>Backend factory (backend-factory.js)\<close>

datatype strategy = Cerebras CerebrasStrategy | SelfHosted SelfHostedStrategy

definition getSupportedTypes :: "string list" where
  "getSupportedTypes = [''cerebras'', ''self-hosted'']"

definition createStrategy :: "(string \<Rightarrow> bool) \<Rightarrow> jsval \<Rightarrow> error + strategy" where
  "createStrategy url_parses config =
     (if \<not> truthy config then Inl (Error ''Backend configuration missing required field: type'')
      else and_then (get config ''type'') (\<lambda>ty.
        if \<not> truthy ty then Inl (Error ''Backend configuration missing required field: type'')
        else if ty = JStr ''cerebras'' then
          and_then (new_CerebrasStrategy config) (\<lambda>s. Inr (Cerebras s))
        else if ty = JStr ''self-hosted'' then
          and_then (new_SelfHostedStrategy url_parses config) (\<lambda>s. Inr (SelfHosted s))
        else Inl ((Error (''Unknown backend type: '' @ to_string ty))
                    \<lparr>supportedTypes := Some getSupportedTypes\<rparr>)))"

section \<open>Proxy server (proxy-server.js)\<close>

text \<open>What the server sees of its active strategy: \<^verbatim>\<open>executeRequest\<close>, and
  \<^verbatim>\<open>checkHealth\<close> when the strategy has such a method, with the outcome of calling
  it (a thrown error or the value it resolves to).\<close>

record active_strategy =
  executeRequest :: "jsval \<Rightarrow> jsval \<Rightarrow> error + jsval"
  checkHealth :: "(error + jsval) option"

definition run_strategy :: "axios \<Rightarrow> strategy \<Rightarrow> active_strategy" where
  "run_strategy net st =
     (case st of
        Cerebras s \<Rightarrow> \<lparr>executeRequest = cerebras_executeRequest net s, checkHealth = None\<rparr>
      | SelfHosted s \<Rightarrow> \<lparr>executeRequest = selfhosted_executeRequest net s,
                         checkHealth = Some (Inr (selfhosted_checkHealth net s))\<rparr>)"

text \<open>The server's state as the handlers read it. \<open>server_port\<close> is the value of
  \<^verbatim>\<open>this.server ? this.server.address()?.port : null\<close>.\<close>

record ProxyServer =
  config :: jsval
  currentStrategy :: "active_strategy option"
  server_port :: jsval

record http_reply =
  statusCode :: nat
  payload :: jsval

text \<open>Fastify sends what an async handler returns with the status the handler set
  (200 unless it called \<^verbatim>\<open>reply.code\<close>), and answers 500 when the handler throws.\<close>

definition fastify_send :: "error + http_reply \<Rightarrow> http_reply" where
  "fastify_send r =
     (case r of
        Inr reply \<Rightarrow> reply
      | Inl e \<Rightarrow> \<lparr>statusCode = 500,
                   payload = JObj [(''statusCode'', JNum 500),
                                   (''error'', JStr ''Internal Server Error''),
                                   (''message'', JStr (message e))]\<rparr>)"

text \<open>The handler of \<^verbatim>\<open>GET /health\<close>; \<open>now\<close> is the timestamp.\<close>

definition health_handler :: "ProxyServer \<Rightarrow> string \<Rightarrow> error + http_reply" where
  "health_handler srv now =
     and_then (get (config srv) ''backend'') (\<lambda>b.
       let health = [(''status'', JStr ''healthy''),
                     (''timestamp'', JStr now),
                     (''backend'', b),
                     (''port'', server_port srv)]
       in Inr \<lparr>statusCode = 200,
               payload = JObj
                 (case currentStrategy srv of
                    None \<Rightarrow> health
                  | Some st \<Rightarrow>
                      (case checkHealth st of
                         None \<Rightarrow> health
                       | Some (Inr backendHealth) \<Rightarrow>
                           AList.update ''backendHealth'' backendHealth health
                       | Some (Inl e) \<Rightarrow>
                           AList.update ''status'' (JStr ''degraded'')
                             (AList.update ''backendHealth''
                                (JObj [(''status'', JStr ''unhealthy''), (''error'', JStr (message e))])
                                health)))\<rparr>)"

definition get_health :: "ProxyServer \<Rightarrow> string \<Rightarrow> http_reply" where
  "get_health srv now = fastify_send (health_handler srv now)"

text \<open>The handler of \<^verbatim>\<open>POST /v1/messages\<close>. Besides the reply it returns the calls
  of the strategy's \<^verbatim>\<open>executeRequest\<close> it made, as (messages, options).\<close>

fun is_array :: "jsval \<Rightarrow> bool" where
  "is_array (JArr xs) = True"
| "is_array v = False"

definition destructure_body :: "jsval \<Rightarrow> error + jsval \<times> jsval \<times> jsval \<times> jsval" where
  "destructure_body body =
     (if body = JUndefined \<or> body = JNull
      then Inl (Error (''Cannot destructure property '' @ [CHR 0x27] @ ''messages'' @ [CHR 0x27]
                  @ '' of '' @ [CHR 0x27] @ ''request.body'' @ [CHR 0x27]
                  @ '' as it is '' @ to_string body @ ''.''))
      else and_then (get body ''messages'') (\<lambda>messages.
           and_then (get body ''max_tokens'') (\<lambda>max_tokens.
           and_then (get body ''temperature'') (\<lambda>temperature.
           and_then (get body ''model'') (\<lambda>model.
             Inr (messages, max_tokens, temperature, model))))))"

definition failure_reply :: "error \<Rightarrow> http_reply" where
  "failure_reply e =
     \<lparr>statusCode = 500,
      payload = JObj
        [(''error'', JStr (message e)),
         (''recommendations'',
            JArr (map JStr (case recommendations e of
                              Some rs \<Rightarrow> rs
                            | None \<Rightarrow> [''Check backend configuration'',
                                        ''Try switching to a different backend''])))]\<rparr>"

definition messages_handler :: "ProxyServer \<Rightarrow> jsval \<Rightarrow> http_reply \<times> (jsval \<times> jsval) list" where
  "messages_handler srv body =
     (case destructure_body body of
        Inl e \<Rightarrow> (failure_reply e, [])
      | Inr (messages, max_tokens, temperature, model) \<Rightarrow>
          if \<not> truthy messages \<or> \<not> is_array messages \<or> get messages ''length'' = Inr (JNum 0)
          then (\<lparr>statusCode = 400,
                 payload = JObj [(''error'',
                   JStr ''Messages field is required and must be a non-empty array'')]\<rparr>, [])
          else
            (let options = JObj [(''max_tokens'', max_tokens),
                                 (''temperature'', temperature),
                                 (''model'', js_or model (JStr ''qwen3-coder''))]
             in case currentStrategy srv of
                  None \<Rightarrow>
                    (failure_reply (Error (''Cannot read properties of null (reading ''
                       @ [CHR 0x27] @ ''executeRequest'' @ [CHR 0x27] @ '')'')), [])
                | Some st \<Rightarrow>
                    (case executeRequest st messages options of
                       Inr result \<Rightarrow> (\<lparr>statusCode = 200, payload = result\<rparr>, [(messages, options)])
                     | Inl e \<Rightarrow> (failure_reply e, [(messages, options)]))))"

definition post_messages :: "ProxyServer \<Rightarrow> jsval \<Rightarrow> http_reply" where
  "post_messages srv body = fst (messages_handler srv body)"

text \<open>\<^verbatim>\<open>initialize\<close>: the configuration is loaded, then \<^verbatim>\<open>initializeBackend\<close> builds
  the strategy of the active entry.\<close>

definition initializeBackend :: "(string \<Rightarrow> bool) \<Rightarrow> jsval \<Rightarrow> error + strategy" where
  "initializeBackend url_parses cfg =
     and_then (get cfg ''backends'') (\<lambda>bs.
     and_then (get cfg ''backend'') (\<lambda>b.
     and_then (get bs (to_string b)) (\<lambda>backendConfig.
       if \<not> truthy backendConfig
       then Inl (Error (''Backend \"'' @ to_string b @ ''\" not found in configuration''))
       else createStrategy url_parses backendConfig)))"

definition initialize :: "(string \<Rightarrow> bool) \<Rightarrow> axios \<Rightarrow> source \<Rightarrow> source \<Rightarrow> source \<Rightarrow> error + ProxyServer" where
  "initialize url_parses net globalSrc projectSrc envSrc =
     and_then (load globalSrc projectSrc envSrc) (\<lambda>cfg.
     and_then (initializeBackend url_parses cfg) (\<lambda>st.
       Inr \<lparr>config = cfg, currentStrategy = Some (run_strategy net st), server_port = JNull\<rparr>))"

section \<open>Vocabulary of the specification\<close>






section \<open>Basic facts about values\<close>

lemma string_of_nat_0: "string_of_nat 0 = ''0''"
  by (simp add: string_of_nat.simps digit_char_def)

lemma lookup_Cons: "lookup ((k, v) # kvs) k' = (if k' = k then v else lookup kvs k')"
  by (simp add: lookup_def)

lemma lookup_Nil: "lookup [] k = JUndefined"
  by (simp add: lookup_def)

lemma lookup_update: "lookup (AList.update k v kvs) k' = (if k' = k then v else lookup kvs k')"
  by (simp add: lookup_def update_conv')

section \<open>The managed-cloud response translation\<close>

text \<open>
  Claim C2. When the provider answers successfully with a body whose \<^verbatim>\<open>choices[0]\<close>
  is an object carrying a \<^verbatim>\<open>message\<close> object, \<^verbatim>\<open>executeRequest\<close> of the managed-cloud
  strategy returns the normalized envelope built from it: \<^verbatim>\<open>stop_reason\<close> is
  \<^verbatim>\<open>end_turn\<close> when \<^verbatim>\<open>finish_reason\<close> is \<^verbatim>\<open>stop\<close> and the unchanged
  \<^verbatim>\<open>finish_reason\<close> otherwise; \<^verbatim>\<open>content\<close> is the one text block holding
  \<^verbatim>\<open>choices[0].message.content\<close>; \<^verbatim>\<open>input_tokens\<close> and \<^verbatim>\<open>output_tokens\<close> are
  \<^verbatim>\<open>usage.prompt_tokens\<close> and \<^verbatim>\<open>usage.completion_tokens\<close>, and 0 where the counter
  (or \<^verbatim>\<open>usage\<close> itself) is absent.
\<close>

theorem cerebras_maps_choice:
  assumes req: "cerebras_request s messages (if options = JUndefined then JObj [] else options) = Inr req"
    and post: "post req = Resolved (JObj response)"
    and data: "lookup response ''data'' = JObj d"
    and choices: "lookup d ''choices'' = JArr (JObj choice # rest)"
    and msg: "lookup choice ''message'' = JObj msg"
  shows "cerebras_executeRequest post s messages options = Inr (JObj
           [(''id'', lookup d ''id''),
            (''type'', JStr ''message''),
            (''role'', JStr ''assistant''),
            (''content'', JArr [JObj [(''type'', JStr ''text''), (''text'', lookup msg ''content'')]]),
            (''model'', lookup d ''model''),
            (''stop_reason'',
               if lookup choice ''finish_reason'' = JStr ''stop'' then JStr ''end_turn''
               else lookup choice ''finish_reason''),
            (''stop_sequence'', JNull),
            (''usage'', JObj
              [(''input_tokens'',
                  if truthy (get_opt (lookup d ''usage'') ''prompt_tokens'')
                  then get_opt (lookup d ''usage'') ''prompt_tokens'' else JNum 0),
               (''output_tokens'',
                  if truthy (get_opt (lookup d ''usage'') ''completion_tokens'')
                  then get_opt (lookup d ''usage'') ''completion_tokens'' else JNum 0)])])"
proof -
  have "transformResponse (JObj d) = Inr (JObj
           [(''id'', lookup d ''id''),
            (''type'', JStr ''message''),
            (''role'', JStr ''assistant''),
            (''content'', JArr [JObj [(''type'', JStr ''text''), (''text'', lookup msg ''content'')]]),
            (''model'', lookup d ''model''),
            (''stop_reason'',
               if lookup choice ''finish_reason'' = JStr ''stop'' then JStr ''end_turn''
               else lookup choice ''finish_reason''),
            (''stop_sequence'', JNull),
            (''usage'', JObj
              [(''input_tokens'',
                  if truthy (get_opt (lookup d ''usage'') ''prompt_tokens'')
                  then get_opt (lookup d ''usage'') ''prompt_tokens'' else JNum 0),
               (''output_tokens'',
                  if truthy (get_opt (lookup d ''usage'') ''completion_tokens'')
                  then get_opt (lookup d ''usage'') ''completion_tokens'' else JNum 0)])])"
    by (simp add: transformResponse_def and_then_def choices msg lookup_Cons string_of_nat_0 js_or_def)
  then show ?thesis
    by (simp add: cerebras_executeRequest_def cerebras_try_def req post data and_then_def)
qed

text \<open>The scenario of the specification: \<^verbatim>\<open>finish_reason\<close> \<^verbatim>\<open>stop\<close>, three prompt
  tokens and one completion token.\<close>

theorem cerebras_maps_choice_witness:
  "cerebras_executeRequest
     (\<lambda>r. Resolved (JObj [(''data'', JObj
        [(''choices'', JArr [JObj [(''message'', JObj [(''content'', JStr ''hi'')]),
                                   (''finish_reason'', JStr ''stop'')]]),
         (''usage'', JObj [(''prompt_tokens'', JNum 3), (''completion_tokens'', JNum 1)])])]))
     \<lparr>apiKey = JStr ''k'', apiUrl = JStr ''https://api.cerebras.ai/v1''\<rparr>
     (JArr [JObj [(''role'', JStr ''user''), (''content'', JStr ''hello'')]])
     (JObj [])
   = Inr (JObj
       [(''id'', JUndefined),
        (''type'', JStr ''message''),
        (''role'', JStr ''assistant''),
        (''content'', JArr [JObj [(''type'', JStr ''text''), (''text'', JStr ''hi'')]]),
        (''model'', JUndefined),
        (''stop_reason'', JStr ''end_turn''),
        (''stop_sequence'', JNull),
        (''usage'', JObj [(''input_tokens'', JNum 3), (''output_tokens'', JNum 1)])])"
  using cerebras_maps_choice
    [of "\<lparr>apiKey = JStr ''k'', apiUrl = JStr ''https://api.cerebras.ai/v1''\<rparr>"
        "JArr [JObj [(''role'', JStr ''user''), (''content'', JStr ''hello'')]]"
        "JObj []"
        "\<lparr>req_method = ''POST'', req_url = ''https://api.cerebras.ai/v1/chat/completions'',
          req_data = JObj [(''model'', JStr ''qwen-3-coder-480b''),
                           (''messages'', JArr [JObj [(''role'', JStr ''user''), (''content'', JStr ''hello'')]])],
          req_headers = [(''Authorization'', ''Bearer k''), (''Content-Type'', ''application/json'')],
          req_timeout = None\<rparr>"
        "\<lambda>r. Resolved (JObj [(''data'', JObj
           [(''choices'', JArr [JObj [(''message'', JObj [(''content'', JStr ''hi'')]),
                                      (''finish_reason'', JStr ''stop'')]]),
            (''usage'', JObj [(''prompt_tokens'', JNum 3), (''completion_tokens'', JNum 1)])])])"
        "[(''data'', JObj
           [(''choices'', JArr [JObj [(''message'', JObj [(''content'', JStr ''hi'')]),
                                      (''finish_reason'', JStr ''stop'')]]),
            (''usage'', JObj [(''prompt_tokens'', JNum 3), (''completion_tokens'', JNum 1)])])]"
        "[(''choices'', JArr [JObj [(''message'', JObj [(''content'', JStr ''hi'')]),
                                    (''finish_reason'', JStr ''stop'')]]),
          (''usage'', JObj [(''prompt_tokens'', JNum 3), (''completion_tokens'', JNum 1)])]"
        "[(''message'', JObj [(''content'', JStr ''hi'')]), (''finish_reason'', JStr ''stop'')]"
        "[]"
        "[(''content'', JStr ''hi'')]"]
  by (simp add: cerebras_request_def and_then_def lookup_Cons lookup_Nil js_or_def
      remove_undefined_def get_opt_def)

section \<open>Layered configuration\<close>

subsection \<open>Spread and merge\<close>




lemma merge_key_backends:
  "lookup (merge_key ov m ''backends'') ''backends'' =
     spread2 (lookup m ''backends'') (lookup (own_props ov) ''backends'')"
  by (simp add: merge_key_def lookup_update)

lemma merge_key_other:
  "k \<noteq> ''backends'' \<Longrightarrow>
   lookup (merge_key ov m k) k' = (if k' = k then lookup (own_props ov) k else lookup m k')"
  by (simp add: merge_key_def lookup_update)












text \<open>When \<^verbatim>\<open>load\<close> comes to the defaults, the configuration it has merged is an
  object whose \<^verbatim>\<open>backends\<close> is absent or an object.\<close>

lemma foldl_merge_backends_plain:
  "lookup (foldl (merge_key ov) m ks) ''backends'' = lookup m ''backends'' \<or>
   (\<exists>bs. lookup (foldl (merge_key ov) m ks) ''backends'' = JObj bs)"
proof (induction ks rule: rev_induct)
  case Nil
  then show ?case by simp
next
  case (snoc k ks)
  then show ?case
    by (cases "k = ''backends''") (auto simp: merge_key_backends merge_key_other spread2_def)
qed

lemma load_source_plain:
  assumes "fst st = JObj c" "lookup c ''backends'' = JUndefined \<or> (\<exists>bs. lookup c ''backends'' = JObj bs)"
  shows "\<exists>c'. fst (load_source st src) = JObj c' \<and>
           (lookup c' ''backends'' = JUndefined \<or> (\<exists>bs. lookup c' ''backends'' = JObj bs))"
proof (cases src)
  case (Parsed v)
  show ?thesis
  proof (cases "mergeConfigs (JObj c) v")
    case (Inl e)
    then show ?thesis using assms Parsed by (simp add: load_source_def)
  next
    case (Inr merged)
    then have "merged = JObj (foldl (merge_key v) c (map fst (own_props v)))"
      by (auto simp: mergeConfigs_def object_keys_def and_then_def split: if_splits)
    then show ?thesis
      using assms Parsed Inr foldl_merge_backends_plain[of v c "map fst (own_props v)"]
      by (auto simp: load_source_def)
  qed
next
  case Missing
  then show ?thesis using assms by (simp add: load_source_def)
next
  case Unreadable
  then show ?thesis using assms by (simp add: load_source_def)
qed

lemma merged_backends_plain:
  "\<exists>c. fst (load_source (load_source (load_source (JObj [], False) g) p) e) = JObj c \<and>
       (lookup c ''backends'' = JUndefined \<or> (\<exists>bs. lookup c ''backends'' = JObj bs))"
proof -
  have "\<exists>c. fst (JObj [], False) = JObj c \<and>
       (lookup c ''backends'' = JUndefined \<or> (\<exists>bs. lookup c ''backends'' = JObj bs))"
    by (simp add: lookup_Nil)
  then obtain c1 where "fst (load_source (JObj [], False) g) = JObj c1 \<and>
       (lookup c1 ''backends'' = JUndefined \<or> (\<exists>bs. lookup c1 ''backends'' = JObj bs))"
    using load_source_plain by blast
  then obtain c2 where "fst (load_source (load_source (JObj [], False) g) p) = JObj c2 \<and>
       (lookup c2 ''backends'' = JUndefined \<or> (\<exists>bs. lookup c2 ''backends'' = JObj bs))"
    using load_source_plain by blast
  then show ?thesis using load_source_plain by blast
qed




lemma fill_defaults_shape:
  "\<exists>c bs. fill_defaults cfg = JObj c \<and> lookup c ''backends'' = JObj bs"
  by (simp add: fill_defaults_def Let_def lookup_update)

lemma load_merged_shape:
  "\<exists>c bs. load_merged g p e = JObj c \<and> lookup c ''backends'' = JObj bs"
proof (cases "snd (load_source (load_source (load_source (JObj [], False) g) p) e)")
  case True
  then show ?thesis using fill_defaults_shape by (simp add: load_merged_def Let_def)
next
  case False
  then show ?thesis by (simp add: load_merged_def Let_def getDefaultConfig_def lookup_Cons)
qed

text \<open>Validation of a configuration object whose \<^verbatim>\<open>backends\<close> is an object.\<close>

lemma validateConfig_obj:
  assumes "lookup c ''backends'' = JObj bs"
  shows "validateConfig (JObj c) =
     (if \<not> truthy (lookup c ''backend'') then Inl (Error ''Missing required field: backend'')
      else if \<not> truthy (lookup bs (to_string (lookup c ''backend'')))
      then Inl (Error (''Backend \"'' @ to_string (lookup c ''backend'') @ ''\" not found in backends configuration''))
      else validateBackend (lookup c ''backend'') (lookup bs (to_string (lookup c ''backend''))))"
  using assms by (simp add: validateConfig_def and_then_def)

lemma validateBackend_truthy: "validateBackend n e = Inr () \<Longrightarrow> truthy e"
  by (cases e) (auto simp: validateBackend_def and_then_def lookup_Nil split: if_splits)




subsection \<open>Precedence of the sources\<close>



subsection \<open>Validation looks at the active entry only\<close>

lemma get_opt_obj: "get_opt (JObj kvs) k = lookup kvs k"
  by (simp add: get_opt_def)

lemma load_accepts_valid_active:
  assumes "truthy (get_opt (load_merged g p e) ''backend'')"
    and "validateBackend (get_opt (load_merged g p e) ''backend'') (activeBackend (load_merged g p e)) = Inr ()"
  shows "load g p e = Inr (load_merged g p e)"
proof -
  from load_merged_shape obtain c bs
    where c: "load_merged g p e = JObj c" "lookup c ''backends'' = JObj bs" by blast
  have a: "activeBackend (JObj c) = lookup bs (to_string (lookup c ''backend''))"
    by (simp add: activeBackend_def get_opt_obj c(2))
  have "truthy (lookup bs (to_string (lookup c ''backend'')))"
    using assms(2) validateBackend_truthy by (simp add: c(1) a get_opt_obj)
  then have "validateConfig (JObj c) = Inr ()"
    using assms by (simp add: validateConfig_obj[OF c(2)] c(1) a get_opt_obj)
  then show ?thesis by (simp add: load_def c(1) and_then_def)
qed

lemma validateConfig_other_entry:
  assumes "lookup c ''backends'' = JObj bs" and "k \<noteq> to_string (lookup c ''backend'')"
  shows "validateConfig (JObj (AList.update ''backends'' (JObj (AList.update k v bs)) c)) =
         validateConfig (JObj c)"
proof -
  have "lookup (AList.update ''backends'' (JObj (AList.update k v bs)) c) ''backends'' =
        JObj (AList.update k v bs)"
    by (simp add: lookup_update)
  from validateConfig_obj[OF this] validateConfig_obj[OF assms(1)] assms(2)
  show ?thesis by (simp add: lookup_update)
qed

text \<open>
  Claim C10. Validation inspects the active entry only. Whenever the merged
  configuration names an active backend and the entry under that name passes
  \<^verbatim>\<open>validateBackend\<close>, \<^verbatim>\<open>load\<close> returns the merged configuration, whatever the other
  entries are; and replacing or adding an entry under any other name leaves the verdict
  of \<^verbatim>\<open>validateConfig\<close> unchanged.
\<close>

theorem validation_checks_active_only:
  "(truthy (get_opt (load_merged g p e) ''backend'') \<and>
    validateBackend (get_opt (load_merged g p e) ''backend'') (activeBackend (load_merged g p e)) = Inr ()
      \<longrightarrow> load g p e = Inr (load_merged g p e))
   \<and> (lookup c ''backends'' = JObj bs \<and> k \<noteq> to_string (lookup c ''backend'')
      \<longrightarrow> validateConfig (JObj (AList.update ''backends'' (JObj (AList.update k v bs)) c)) =
          validateConfig (JObj c))"
  using load_accepts_valid_active validateConfig_other_entry by blast


theorem validation_checks_active_only_witness:
  "load Missing
     (Parsed (JObj [(''backend'', JStr ''mine''),
        (''backends'', JObj
          [(''mine'', JObj [(''type'', JStr ''self-hosted''), (''url'', JStr ''http://h:1'')]),
           (''broken'', JObj [(''type'', JStr ''cerebras'')]),
           (''odd'', JObj [(''type'', JStr ''mystery'')]),
           (''gone'', JNull)])]))
     Missing
   = Inr (load_merged Missing
     (Parsed (JObj [(''backend'', JStr ''mine''),
        (''backends'', JObj
          [(''mine'', JObj [(''type'', JStr ''self-hosted''), (''url'', JStr ''http://h:1'')]),
           (''broken'', JObj [(''type'', JStr ''cerebras'')]),
           (''odd'', JObj [(''type'', JStr ''mystery'')]),
           (''gone'', JNull)])]))
     Missing)
   \<and> validateConfig (JObj (AList.update ''backends''
          (JObj (AList.update ''broken'' (JObj [(''type'', JStr ''cerebras'')])
             [(''mine'', JObj [(''type'', JStr ''self-hosted''), (''url'', JStr ''http://h:1'')])]))
          [(''backend'', JStr ''mine''),
           (''backends'', JObj [(''mine'', JObj [(''type'', JStr ''self-hosted''), (''url'', JStr ''http://h:1'')])])]))
     = validateConfig (JObj
          [(''backend'', JStr ''mine''),
           (''backends'', JObj [(''mine'', JObj [(''type'', JStr ''self-hosted''), (''url'', JStr ''http://h:1'')])])])"
  using validation_checks_active_only
    [where g = Missing and e = Missing
       and p = "Parsed (JObj [(''backend'', JStr ''mine''),
        (''backends'', JObj
          [(''mine'', JObj [(''type'', JStr ''self-hosted''), (''url'', JStr ''http://h:1'')]),
           (''broken'', JObj [(''type'', JStr ''cerebras'')]),
           (''odd'', JObj [(''type'', JStr ''mystery'')]),
           (''gone'', JNull)])])"
       and c = "[(''backend'', JStr ''mine''),
           (''backends'', JObj [(''mine'', JObj [(''type'', JStr ''self-hosted''), (''url'', JStr ''http://h:1'')])])]"
       and bs = "[(''mine'', JObj [(''type'', JStr ''self-hosted''), (''url'', JStr ''http://h:1'')])]"
       and k = "''broken''" and v = "JObj [(''type'', JStr ''cerebras'')]"]
  by (simp add: load_merged_def load_source_def mergeConfigs_def object_keys_def and_then_def
      merge_key_def spread2_def assign_def fill_defaults_def add_default_backend_def
      getDefaultConfig_def lookup_Cons lookup_Nil activeBackend_def get_opt_def validateBackend_def)

subsection \<open>What validation rejects\<close>

lemma get_of_get_opt: "get_opt e k = JStr s \<Longrightarrow> get e k = Inr (JStr s)"
  by (cases "get e k") (auto simp: get_opt_def)

lemma get_total: "get e k = Inr (get_opt e k) \<or> (\<exists>err. get e k = Inl err)"
  by (cases "get e k") (auto simp: get_opt_def)

lemma validateBackend_rejects:
  assumes "get_opt entry ''type'' = JStr ''cerebras'' \<and> \<not> truthy (get_opt entry ''apiKey'')
         \<or> get_opt entry ''type'' = JStr ''self-hosted'' \<and> \<not> truthy (get_opt entry ''url'')"
  shows "\<exists>err. validateBackend n entry = Inl err"
  using assms get_total[of entry "''apiKey''"] get_total[of entry "''url''"]
  by (auto simp: validateBackend_def and_then_def dest!: get_of_get_opt)

lemma load_rejects:
  assumes "\<not> truthy (activeBackend (load_merged g p e))
     \<or> get_opt (activeBackend (load_merged g p e)) ''type'' = JStr ''cerebras'' \<and>
        \<not> truthy (get_opt (activeBackend (load_merged g p e)) ''apiKey'')
     \<or> get_opt (activeBackend (load_merged g p e)) ''type'' = JStr ''self-hosted'' \<and>
        \<not> truthy (get_opt (activeBackend (load_merged g p e)) ''url'')"
  shows "\<exists>err. load g p e = Inl err"
proof -
  from load_merged_shape obtain c bs
    where c: "load_merged g p e = JObj c" "lookup c ''backends'' = JObj bs" by blast
  have a: "activeBackend (JObj c) = lookup bs (to_string (lookup c ''backend''))"
    by (simp add: activeBackend_def get_opt_obj c(2))
  have "\<exists>err. validateConfig (JObj c) = Inl err"
    using assms validateBackend_rejects[of "lookup bs (to_string (lookup c ''backend''))" "lookup c ''backend''"]
    by (auto simp: validateConfig_obj[OF c(2)] c(1) a)
  then show ?thesis by (auto simp: load_def c(1) and_then_def)
qed

lemma get_opt_truthy: "get_opt e k = JStr (x # xs) \<Longrightarrow> truthy e"
  by (cases e) (auto simp: get_opt_def lookup_Nil split: if_splits)

lemma createStrategy_rejects_bad_url:
  assumes "get_opt entry ''type'' = JStr ''self-hosted''" "get_opt entry ''url'' = JStr u" "\<not> url_parses u"
  shows "\<exists>err. createStrategy url_parses entry = Inl err"
proof -
  have t: "truthy entry" using assms(1) by (rule get_opt_truthy)
  have "\<exists>err. selfhosted_validateConfig url_parses entry = Inl err"
    using assms by (auto simp: selfhosted_validateConfig_def and_then_def dest!: get_of_get_opt)
  then have "\<exists>err. new_SelfHostedStrategy url_parses entry = Inl err"
    by (auto simp: new_SelfHostedStrategy_def and_then_def)
  then show ?thesis
    using t get_of_get_opt[OF assms(1)] by (auto simp: createStrategy_def and_then_def)
qed

lemma initialize_rejects_bad_url:
  assumes "get_opt (activeBackend (load_merged g p e)) ''type'' = JStr ''self-hosted''"
    "get_opt (activeBackend (load_merged g p e)) ''url'' = JStr u" "\<not> url_parses u"
  shows "\<exists>err. initialize url_parses net g p e = Inl err"
proof (cases "load g p e")
  case (Inl err)
  then show ?thesis by (simp add: initialize_def and_then_def)
next
  case (Inr cfg)
  then have cfg: "cfg = load_merged g p e"
    by (auto simp: load_def and_then_def Let_def split: sum.splits)
  from load_merged_shape obtain c bs
    where c: "load_merged g p e = JObj c" "lookup c ''backends'' = JObj bs" by blast
  have a: "activeBackend (JObj c) = lookup bs (to_string (lookup c ''backend''))"
    by (simp add: activeBackend_def get_opt_obj c(2))
  have t: "truthy (activeBackend (JObj c))" using assms(1) get_opt_truthy by (simp add: c(1))
  from createStrategy_rejects_bad_url[where url_parses = url_parses and u = u, OF assms] obtain err
    where "createStrategy url_parses (activeBackend (JObj c)) = Inl err" by (auto simp: c(1))
  then have "initializeBackend url_parses cfg = Inl err"
    using t by (simp add: initializeBackend_def cfg c and_then_def a)
  then show ?thesis using Inr by (simp add: initialize_def and_then_def)
qed

text \<open>
  Claim C4, as the specification states it, has \<^verbatim>\<open>load\<close> reject an active self-hosted
  backend whose \<^verbatim>\<open>url\<close> is not a syntactically valid URL. \<^verbatim>\<open>validateBackend\<close> only
  checks that \<^verbatim>\<open>url\<close> is present: \<^verbatim>\<open>load\<close> returns the configuration whose active
  entry has the url \<^verbatim>\<open>invalid-url\<close>, the string the repository's tests use as an
  invalid URL.
\<close>

theorem load_accepts_invalid_url:
  "load Missing
     (Parsed (JObj [(''backend'', JStr ''x''),
                    (''backends'', JObj [(''x'', JObj [(''type'', JStr ''self-hosted''),
                                                       (''url'', JStr ''invalid-url'')])])]))
     Missing
   = Inr (JObj
       [(''backend'', JStr ''x''),
        (''backends'', JObj
          [(''x'', JObj [(''type'', JStr ''self-hosted''), (''url'', JStr ''invalid-url'')]),
           (''cerebras'', JObj
              [(''type'', JStr ''cerebras''),
               (''apiKey'', JStr ''YOUR_CEREBRAS_API_KEY''),
               (''apiUrl'', JStr ''https://api.cerebras.ai/v1'')]),
           (''self-hosted'', JObj
              [(''type'', JStr ''self-hosted''),
               (''url'', JStr ''http://localhost:8000''),
               (''description'', JStr ''Local Python proxy (simple_api_proxy.py)'')]),
           (''vast-ai'', JObj
              [(''type'', JStr ''self-hosted''),
               (''url'', JStr ''http://vast-instance:8000''),
               (''description'', JStr ''Vast.ai instance with Redis caching'')]),
           (''runpod'', JObj
              [(''type'', JStr ''self-hosted''),
               (''url'', JStr ''http://runpod-instance:8000''),
               (''description'', JStr ''RunPod instance with persistent storage'')])]),
        (''port'', JStr ''auto'')])"
  by (simp add: load_def load_merged_def load_source_def mergeConfigs_def object_keys_def and_then_def
      merge_key_def spread2_def assign_def fill_defaults_def add_default_backend_def
      getDefaultConfig_def lookup_Cons lookup_Nil validateConfig_def validateBackend_def)

text \<open>
  Claim C4, amended. \<^verbatim>\<open>load\<close> throws when the merged configuration has no (truthy)
  entry under the active backend name, when the active entry has type
  \<^verbatim>\<open>cerebras\<close> and no \<^verbatim>\<open>apiKey\<close>, and when it has type \<^verbatim>\<open>self-hosted\<close> and no
  \<^verbatim>\<open>url\<close>. A \<^verbatim>\<open>url\<close> that is present but does not parse is not examined by
  \<^verbatim>\<open>load\<close>; it is rejected when the server builds the active strategy, by the
  constructor of the self-hosted strategy, so that \<^verbatim>\<open>initialize\<close> throws.
\<close>

theorem load_rejects_unusable_active:
  "((\<not> truthy (activeBackend (load_merged g p e))
     \<or> get_opt (activeBackend (load_merged g p e)) ''type'' = JStr ''cerebras'' \<and>
        \<not> truthy (get_opt (activeBackend (load_merged g p e)) ''apiKey'')
     \<or> get_opt (activeBackend (load_merged g p e)) ''type'' = JStr ''self-hosted'' \<and>
        \<not> truthy (get_opt (activeBackend (load_merged g p e)) ''url''))
    \<longrightarrow> (\<exists>err. load g p e = Inl err))
   \<and> (get_opt (activeBackend (load_merged g p e)) ''type'' = JStr ''self-hosted'' \<and>
      get_opt (activeBackend (load_merged g p e)) ''url'' = JStr u \<and> \<not> url_parses u
    \<longrightarrow> (\<exists>err. initialize url_parses net g p e = Inl err))"
  using load_rejects initialize_rejects_bad_url by blast

theorem load_rejects_unusable_active_witness:
  "(\<exists>err. load Missing
       (Parsed (JObj [(''backend'', JStr ''x''),
                      (''backends'', JObj [(''x'', JObj [(''type'', JStr ''cerebras'')])])]))
       Missing = Inl err)
   \<and> (\<exists>err. initialize (\<lambda>s. prefix ''http://'' s \<or> prefix ''https://'' s) (\<lambda>r. Rejected JUndefined)
       Missing
       (Parsed (JObj [(''backend'', JStr ''x''),
                      (''backends'', JObj [(''x'', JObj [(''type'', JStr ''self-hosted''),
                                                         (''url'', JStr ''invalid-url'')])])]))
       Missing = Inl err)"
  using load_rejects_unusable_active
    [where g = Missing and e = Missing
       and p = "Parsed (JObj [(''backend'', JStr ''x''),
                      (''backends'', JObj [(''x'', JObj [(''type'', JStr ''cerebras'')])])])"]
    load_rejects_unusable_active
    [where g = Missing and e = Missing and u = "''invalid-url''"
       and url_parses = "\<lambda>s. prefix ''http://'' s \<or> prefix ''https://'' s"
       and net = "\<lambda>r. Rejected JUndefined"
       and p = "Parsed (JObj [(''backend'', JStr ''x''),
                      (''backends'', JObj [(''x'', JObj [(''type'', JStr ''self-hosted''),
                                                         (''url'', JStr ''invalid-url'')])])])"]
  by (simp add: load_merged_def load_source_def mergeConfigs_def object_keys_def and_then_def
      merge_key_def spread2_def assign_def fill_defaults_def add_default_backend_def
      getDefaultConfig_def lookup_Cons lookup_Nil activeBackend_def get_opt_def)

section \<open>Saving a configuration with secrets\<close>

text \<open>When \<^verbatim>\<open>configContainsSecrets\<close> finds a secret, the saved file ends with mode
  0600, whatever mode it was created with or had before.\<close>

lemma save_restricts_when_secret_found:
  assumes "configContainsSecrets cfg = Inr True"
  shows "\<exists>f. fst (save creation_mode fs cfg path) path = Some f \<and> mode f = mode_0o600 \<and> content f = cfg"
  using assms by (simp add: save_def writeJson_def chmod_def)

lemma some_has_secret_found:
  assumes "\<forall>b \<in> set bs. b \<noteq> JNull \<and> b \<noteq> JUndefined"
    and "\<exists>b \<in> set bs. truthy (get_opt b ''apiKey'') \<or> truthy (get_opt b ''password'') \<or> truthy (get_opt b ''token'')"
  shows "some_has_secret bs = Inr True"
  using assms
proof (induction bs)
  case Nil
  then show ?case by simp
next
  case (Cons b bs)
  have nn: "b \<noteq> JNull" "b \<noteq> JUndefined" using Cons.prems(1) by auto
  then have g: "\<And>k. get b k = Inr (get_opt b k)" by (cases b) (auto simp: get_opt_def)
  show ?case
  proof (cases "truthy (get_opt b ''apiKey'') \<or> truthy (get_opt b ''password'') \<or> truthy (get_opt b ''token'')")
    case True
    then show ?thesis by (auto simp: has_secret_def and_then_def g)
  next
    case False
    then have "has_secret b = Inr False" by (auto simp: has_secret_def and_then_def g)
    moreover have "some_has_secret bs = Inr True" using Cons False by auto
    ultimately show ?thesis by (simp add: and_then_def)
  qed
qed

lemma save_restricts_secret_config:
  assumes "lookup c ''backends'' = JObj bs"
    and "\<forall>b \<in> set (map snd bs). b \<noteq> JNull \<and> b \<noteq> JUndefined"
    and "\<exists>b \<in> set (map snd bs).
           truthy (get_opt b ''apiKey'') \<or> truthy (get_opt b ''password'') \<or> truthy (get_opt b ''token'')"
  shows "\<exists>f. fst (save creation_mode fs (JObj c) path) path = Some f \<and> mode f = mode_0o600"
proof -
  have "some_has_secret (map snd bs) = Inr True"
    using assms(2,3) by (rule some_has_secret_found)
  then have "configContainsSecrets (JObj c) = Inr True"
    using assms(1) by (simp add: configContainsSecrets_def and_then_def)
  from save_restricts_when_secret_found[OF this] show ?thesis by blast
qed

text \<open>
  Claim C9: a configuration in which some backend entry holds an \<^verbatim>\<open>apiKey\<close>,
  \<^verbatim>\<open>password\<close> or \<^verbatim>\<open>token\<close> is saved with mode 0600. The code fails this when an
  entry that is \<^verbatim>\<open>null\<close> comes before the entry with the secret: \<^verbatim>\<open>save\<close> has
  already written the file when \<^verbatim>\<open>configContainsSecrets\<close> reads \<^verbatim>\<open>apiKey\<close> of
  \<^verbatim>\<open>null\<close> and throws, so \<^verbatim>\<open>chmod\<close> never runs and a new file keeps the creation
  mode, here 0644. Such a configuration reaches \<^verbatim>\<open>save\<close> through the \<^verbatim>\<open>switch\<close>
  command, which saves what \<^verbatim>\<open>load\<close> returned into the project file: \<^verbatim>\<open>load\<close>
  accepts the global file below, since it validates the active entry only.
\<close>

theorem save_crashes_before_chmod:
  "load (Parsed (JObj [(''backend'', JStr ''cerebras''),
            (''backends'', JObj
              [(''retired'', JNull),
               (''cerebras'', JObj [(''type'', JStr ''cerebras''), (''apiKey'', JStr ''secret-key'')])])])) Missing Missing
   = Inr (JObj
       [(''backend'', JStr ''cerebras''),
        (''backends'', JObj
          [(''retired'', JNull),
           (''cerebras'', JObj [(''type'', JStr ''cerebras''), (''apiKey'', JStr ''secret-key'')]),
           (''self-hosted'', JObj
              [(''type'', JStr ''self-hosted''),
               (''url'', JStr ''http://localhost:8000''),
               (''description'', JStr ''Local Python proxy (simple_api_proxy.py)'')]),
           (''vast-ai'', JObj
              [(''type'', JStr ''self-hosted''),
               (''url'', JStr ''http://vast-instance:8000''),
               (''description'', JStr ''Vast.ai instance with Redis caching'')]),
           (''runpod'', JObj
              [(''type'', JStr ''self-hosted''),
               (''url'', JStr ''http://runpod-instance:8000''),
               (''description'', JStr ''RunPod instance with persistent storage'')])]),
        (''port'', JStr ''auto'')])
   \<and> save mode_0o644 Map.empty
       (JObj
       [(''backend'', JStr ''cerebras''),
        (''backends'', JObj
          [(''retired'', JNull),
           (''cerebras'', JObj [(''type'', JStr ''cerebras''), (''apiKey'', JStr ''secret-key'')]),
           (''self-hosted'', JObj
              [(''type'', JStr ''self-hosted''),
               (''url'', JStr ''http://localhost:8000''),
               (''description'', JStr ''Local Python proxy (simple_api_proxy.py)'')]),
           (''vast-ai'', JObj
              [(''type'', JStr ''self-hosted''),
               (''url'', JStr ''http://vast-instance:8000''),
               (''description'', JStr ''Vast.ai instance with Redis caching'')]),
           (''runpod'', JObj
              [(''type'', JStr ''self-hosted''),
               (''url'', JStr ''http://runpod-instance:8000''),
               (''description'', JStr ''RunPod instance with persistent storage'')])]),
        (''port'', JStr ''auto'')])
       ''/work/.llmrc.json''
     = ([''/work/.llmrc.json'' \<mapsto>
          \<lparr>content = JObj
       [(''backend'', JStr ''cerebras''),
        (''backends'', JObj
          [(''retired'', JNull),
           (''cerebras'', JObj [(''type'', JStr ''cerebras''), (''apiKey'', JStr ''secret-key'')]),
           (''self-hosted'', JObj
              [(''type'', JStr ''self-hosted''),
               (''url'', JStr ''http://localhost:8000''),
               (''description'', JStr ''Local Python proxy (simple_api_proxy.py)'')]),
           (''vast-ai'', JObj
              [(''type'', JStr ''self-hosted''),
               (''url'', JStr ''http://vast-instance:8000''),
               (''description'', JStr ''Vast.ai instance with Redis caching'')]),
           (''runpod'', JObj
              [(''type'', JStr ''self-hosted''),
               (''url'', JStr ''http://runpod-instance:8000''),
               (''description'', JStr ''RunPod instance with persistent storage'')])]),
        (''port'', JStr ''auto'')],
           mode = mode_0o644\<rparr>],
        Inl (Error (''Cannot read properties of null (reading '' @ [CHR 0x27] @ ''apiKey'' @ [CHR 0x27] @ '')'')))
   \<and> mode_0o644 \<noteq> mode_0o600"
proof (intro conjI)
  show "load (Parsed (JObj [(''backend'', JStr ''cerebras''),
            (''backends'', JObj
              [(''retired'', JNull),
               (''cerebras'', JObj [(''type'', JStr ''cerebras''), (''apiKey'', JStr ''secret-key'')])])])) Missing Missing
   = Inr (JObj
       [(''backend'', JStr ''cerebras''),
        (''backends'', JObj
          [(''retired'', JNull),
           (''cerebras'', JObj [(''type'', JStr ''cerebras''), (''apiKey'', JStr ''secret-key'')]),
           (''self-hosted'', JObj
              [(''type'', JStr ''self-hosted''),
               (''url'', JStr ''http://localhost:8000''),
               (''description'', JStr ''Local Python proxy (simple_api_proxy.py)'')]),
           (''vast-ai'', JObj
              [(''type'', JStr ''self-hosted''),
               (''url'', JStr ''http://vast-instance:8000''),
               (''description'', JStr ''Vast.ai instance with Redis caching'')]),
           (''runpod'', JObj
              [(''type'', JStr ''self-hosted''),
               (''url'', JStr ''http://runpod-instance:8000''),
               (''description'', JStr ''RunPod instance with persistent storage'')])]),
        (''port'', JStr ''auto'')])"
    by (simp add: load_def load_merged_def load_source_def mergeConfigs_def object_keys_def and_then_def
        merge_key_def spread2_def assign_def fill_defaults_def add_default_backend_def
        getDefaultConfig_def lookup_Cons lookup_Nil validateConfig_def validateBackend_def)
  show "save mode_0o644 Map.empty
       (JObj
       [(''backend'', JStr ''cerebras''),
        (''backends'', JObj
          [(''retired'', JNull),
           (''cerebras'', JObj [(''type'', JStr ''cerebras''), (''apiKey'', JStr ''secret-key'')]),
           (''self-hosted'', JObj
              [(''type'', JStr ''self-hosted''),
               (''url'', JStr ''http://localhost:8000''),
               (''description'', JStr ''Local Python proxy (simple_api_proxy.py)'')]),
           (''vast-ai'', JObj
              [(''type'', JStr ''self-hosted''),
               (''url'', JStr ''http://vast-instance:8000''),
               (''description'', JStr ''Vast.ai instance with Redis caching'')]),
           (''runpod'', JObj
              [(''type'', JStr ''self-hosted''),
               (''url'', JStr ''http://runpod-instance:8000''),
               (''description'', JStr ''RunPod instance with persistent storage'')])]),
        (''port'', JStr ''auto'')])
       ''/work/.llmrc.json''
     = ([''/work/.llmrc.json'' \<mapsto>
          \<lparr>content = JObj
       [(''backend'', JStr ''cerebras''),
        (''backends'', JObj
          [(''retired'', JNull),
           (''cerebras'', JObj [(''type'', JStr ''cerebras''), (''apiKey'', JStr ''secret-key'')]),
           (''self-hosted'', JObj
              [(''type'', JStr ''self-hosted''),
               (''url'', JStr ''http://localhost:8000''),
               (''description'', JStr ''Local Python proxy (simple_api_proxy.py)'')]),
           (''vast-ai'', JObj
              [(''type'', JStr ''self-hosted''),
               (''url'', JStr ''http://vast-instance:8000''),
               (''description'', JStr ''Vast.ai instance with Redis caching'')]),
           (''runpod'', JObj
              [(''type'', JStr ''self-hosted''),
               (''url'', JStr ''http://runpod-instance:8000''),
               (''description'', JStr ''RunPod instance with persistent storage'')])]),
        (''port'', JStr ''auto'')],
           mode = mode_0o644\<rparr>],
        Inl (Error (''Cannot read properties of null (reading '' @ [CHR 0x27] @ ''apiKey'' @ [CHR 0x27] @ '')'')))"
    by (simp add: save_def writeJson_def configContainsSecrets_def has_secret_def and_then_def
        lookup_Cons)
  show "mode_0o644 \<noteq> mode_0o600"
    by (simp add: mode_0o644_def mode_0o600_def)
qed

section \<open>The health endpoint\<close>

text \<open>\<^verbatim>\<open>GET /health\<close> answers 200 whenever the server has its configuration. A
  \<^verbatim>\<open>checkHealth\<close> that throws gives \<^verbatim>\<open>degraded\<close> with the error attached; a strategy
  without \<^verbatim>\<open>checkHealth\<close> gives \<^verbatim>\<open>healthy\<close> with no backend health.\<close>

lemma health_degrades_on_throw:
  assumes "currentStrategy srv = Some st" "checkHealth st = Some (Inl e)" "config srv = JObj c"
  shows "get_health srv now = \<lparr>statusCode = 200, payload = JObj
        [(''status'', JStr ''degraded''),
         (''timestamp'', JStr now),
         (''backend'', lookup c ''backend''),
         (''port'', server_port srv),
         (''backendHealth'', JObj [(''status'', JStr ''unhealthy''), (''error'', JStr (message e))])]\<rparr>"
  using assms by (simp add: get_health_def fastify_send_def health_handler_def and_then_def)

lemma health_without_capability:
  assumes "currentStrategy srv = Some st" "checkHealth st = None" "config srv = JObj c"
  shows "get_health srv now = \<lparr>statusCode = 200, payload = JObj
        [(''status'', JStr ''healthy''),
         (''timestamp'', JStr now),
         (''backend'', lookup c ''backend''),
         (''port'', server_port srv)]\<rparr>"
  using assms by (simp add: get_health_def fastify_send_def health_handler_def and_then_def)

lemma health_always_200:
  assumes "config srv = JObj c"
  shows "statusCode (get_health srv now) = 200"
  using assms by (simp add: get_health_def fastify_send_def health_handler_def and_then_def Let_def)


section \<open>Request validation\<close>



section \<open>Factory dispatch\<close>










section \<open>What \<^verbatim>\<open>executeRequest\<close> returns and throws\<close>











section \<open>Errors of the managed-cloud strategy and the API key\<close>














end
